theory Spec2Isabelle
  imports Complex_Main
begin

section \<open>The iQua softener client: session lifecycle and request pipeline\<close>

text \<open>
  A shallow embedding of \<^verbatim>\<open>iqua_softener/iqua.py\<close>. The client object is a record
  that every operation takes and returns; the network, the clock, the file system and
  the library functions the module calls are explicit: an environment \<open>env\<close> (what the
  outside answers) and a world \<open>world\<close> (what the client has done to the outside).
  Every raise of the source is an \<open>Inl\<close> result.
\<close>

subsection \<open>Python values\<close>

text \<open>
  The attributes of the client hold whatever was assigned to them: values read from a
  JSON document (a login response, a token file, a device list) are stored verbatim.
  \<open>pyval\<close> is the type of those values: \<^verbatim>\<open>None\<close>, booleans, integers, strings,
  lists and dictionaries with string keys (an association list, a lookup taking the
  first binding of a key). Floating-point numbers are not modelled.
\<close>

datatype pyval =
    PNone
  | PBool bool
  | PInt int
  | PStr string
  | PList "pyval list"
  | PDict "(string \<times> pyval) list"

datatype msg =
    LoginRequestException
  | AuthenticationError string
  | LoginFailed int string
  | NoRefreshToken
  | RefreshRequestException
  | RefreshFailed int string
  | DeviceNotFound string
  | InvalidStatus int

text \<open>
  The exceptions the module raises or lets through. The message of an
  \<^verbatim>\<open>IquaSoftenerException\<close> is kept as a constructor of \<open>msg\<close> with the values
  the source interpolates into it.
\<close>

datatype error =
    IquaSoftenerException msg
  | ValueError
  | TypeError
  | AttributeError
  | KeyError
  | JSONDecodeError
  | RequestException
  | HTTPError int
  | OSError

text \<open>Truth value of a Python value (\<^verbatim>\<open>if x:\<close>, \<^verbatim>\<open>not x\<close>).\<close>

fun truthy :: "pyval \<Rightarrow> bool" where
  "truthy PNone = False"
| "truthy (PBool b) = b"
| "truthy (PInt n) = (n \<noteq> 0)"
| "truthy (PStr s) = (s \<noteq> [])"
| "truthy (PList xs) = (xs \<noteq> [])"
| "truthy (PDict d) = (d \<noteq> [])"

text \<open>\<^verbatim>\<open>x is None\<close>.\<close>

fun is_none :: "pyval \<Rightarrow> bool" where
  "is_none PNone = True"
| "is_none _ = False"

text \<open>\<^verbatim>\<open>d.get(key, default)\<close>: only a dictionary has \<^verbatim>\<open>get\<close>.\<close>

fun py_get :: "pyval \<Rightarrow> string \<Rightarrow> pyval \<Rightarrow> error + pyval" where
  "py_get (PDict d) k dflt = Inr (case map_of d k of None \<Rightarrow> dflt | Some v \<Rightarrow> v)"
| "py_get _ k dflt = Inl AttributeError"

text \<open>\<^verbatim>\<open>d[key]\<close> on a dictionary (the only subscript the module uses).\<close>

fun py_getitem :: "pyval \<Rightarrow> string \<Rightarrow> error + pyval" where
  "py_getitem (PDict d) k = (case map_of d k of None \<Rightarrow> Inl KeyError | Some v \<Rightarrow> Inr v)"
| "py_getitem _ k = Inl TypeError"

text \<open>
  \<^verbatim>\<open>for x in v\<close>: a list yields its elements, a dictionary its keys, a string its
  characters; the other values are not iterable.
\<close>

fun py_iter :: "pyval \<Rightarrow> error + pyval list" where
  "py_iter (PList xs) = Inr xs"
| "py_iter (PDict d) = Inr (map PStr (remdups (map fst d)))"
| "py_iter (PStr s) = Inr (map (\<lambda>c. PStr [c]) s)"
| "py_iter _ = Inl TypeError"

text \<open>
  \<^verbatim>\<open>time.time() >= v\<close>: the clock reading is a float, compared exactly with an
  integer (a boolean counts as 0 or 1); any other operand raises \<^verbatim>\<open>TypeError\<close>.
\<close>

fun py_time_ge :: "real \<Rightarrow> pyval \<Rightarrow> error + bool" where
  "py_time_ge t (PInt n) = Inr (real_of_int n \<le> t)"
| "py_time_ge t (PBool b) = Inr ((if b then 1 else 0) \<le> t)"
| "py_time_ge t _ = Inl TypeError"

subsection \<open>The outside: HTTP transport, clock, files, library functions\<close>

record http_call =
  call_method :: string
  call_url :: string
  call_json :: "pyval option"
  call_authorization :: "string option"
  call_timeout :: nat

text \<open>
  A response as the module reads it: \<^verbatim>\<open>status_code\<close>, \<^verbatim>\<open>text\<close> and the value
  of \<^verbatim>\<open>json()\<close>, \<open>None\<close> when the body is not JSON and \<^verbatim>\<open>json()\<close> raises.
\<close>

record response =
  status_code :: int
  resp_text :: string
  resp_json :: "pyval option"

datatype outcome = TransportFailure | Responded response

text \<open>What \<^verbatim>\<open>open(path)\<close> and \<^verbatim>\<open>json.load\<close> find at an existing path.\<close>

datatype entry = Unreadable | Malformed | Json pyval

text \<open>
  The environment fixes how the outside answers: the server's outcome for a call given
  all calls made so far (the last one is the call being answered), the reading of
  \<^verbatim>\<open>time.time()\<close> given the calls made so far, the module \<^verbatim>\<open>jwt\<close> (\<open>None\<close>
  when its import failed, otherwise \<^verbatim>\<open>jwt.decode\<close> without signature check:
  the payload dictionary, or \<open>None\<close> when it raises), the builtins \<^verbatim>\<open>int\<close> on a
  string and \<^verbatim>\<open>str\<close> on a value that is not a string, and the paths that
  \<^verbatim>\<open>open(path, "w")\<close> accepts.
\<close>

record env =
  server :: "http_call list \<Rightarrow> outcome"
  clock :: "http_call list \<Rightarrow> real"
  jwt :: "(pyval \<Rightarrow> (string \<times> pyval) list option) option"
  int_of_str :: "string \<Rightarrow> int option"
  str_of :: "pyval \<Rightarrow> string"
  writable :: "string \<Rightarrow> bool"

record world =
  calls :: "http_call list"
  files :: "string \<Rightarrow> entry option"

text \<open>\<^verbatim>\<open>int(v)\<close>, \<open>None\<close> when it raises.\<close>

fun py_int :: "env \<Rightarrow> pyval \<Rightarrow> int option" where
  "py_int e (PInt n) = Some n"
| "py_int e (PBool b) = Some (if b then 1 else 0)"
| "py_int e (PStr s) = int_of_str e s"
| "py_int e _ = None"

text \<open>\<^verbatim>\<open>str(v)\<close>, as an f-string formats a value.\<close>

fun py_str :: "env \<Rightarrow> pyval \<Rightarrow> string" where
  "py_str e (PStr s) = s"
| "py_str e v = str_of e v"

subsection \<open>The client object\<close>

datatype session = Session (authorization: "string option")

record client =
  username :: string
  password :: string
  device_serial_number :: string
  api_base_url :: string
  session :: "session option"
  access_token :: pyval
  refresh_token :: pyval
  user_id :: pyval
  access_expires_at :: pyval
  device_id :: pyval

definition DEFAULT_API_BASE_URL :: string where
  "DEFAULT_API_BASE_URL = ''https://api.myiquaapp.com/v1''"

text \<open>\<^verbatim>\<open>__init__\<close>: every token attribute and the device-id cache start as None.\<close>

definition init :: "string \<Rightarrow> string \<Rightarrow> string \<Rightarrow> string \<Rightarrow> client" where
  "init user pw serial base =
     \<lparr>username = user, password = pw, device_serial_number = serial, api_base_url = base,
      session = None, access_token = PNone, refresh_token = PNone, user_id = PNone,
      access_expires_at = PNone, device_id = PNone\<rparr>"

type_synonym 'a result = "(error + 'a) \<times> client \<times> world"

definition ensure_session :: "client \<Rightarrow> client" where
  "ensure_session c = (case session c of None \<Rightarrow> c\<lparr>session := Some (Session None)\<rparr> | Some s \<Rightarrow> c)"

text \<open>
  \<^verbatim>\<open>self._session.request(method, url, timeout=t, json=j)\<close> (and \<^verbatim>\<open>post\<close>): the
  call goes out with the session's Authorization header and is appended to the log;
  a transport failure is \<^verbatim>\<open>requests.exceptions.RequestException\<close>.
\<close>

definition session_request ::
  "env \<Rightarrow> client \<Rightarrow> world \<Rightarrow> string \<Rightarrow> string \<Rightarrow> pyval option \<Rightarrow> nat \<Rightarrow> (error + response) \<times> world" where
  "session_request e c w m url j t =
     (case session c of
        None \<Rightarrow> (Inl AttributeError, w)
      | Some s \<Rightarrow>
          (let call = \<lparr>call_method = m, call_url = url, call_json = j,
                       call_authorization = authorization s, call_timeout = t\<rparr>;
               log = calls w @ [call]
           in (case server e log of
                 TransportFailure \<Rightarrow> (Inl RequestException, w\<lparr>calls := log\<rparr>)
               | Responded r \<Rightarrow> (Inr r, w\<lparr>calls := log\<rparr>))))"

subsection \<open>Tokens and their expiry\<close>

text \<open>
  \<^verbatim>\<open>_set_tokens\<close> (lines 281-298). The whole \<^verbatim>\<open>try\<close> body is under
  \<^verbatim>\<open>except Exception\<close>: a decode that raises, or an \<^verbatim>\<open>int(exp)\<close> that raises,
  stores None. A payload whose \<^verbatim>\<open>exp\<close> is missing or falsy stores nothing.
\<close>

definition set_tokens :: "env \<Rightarrow> client \<Rightarrow> pyval \<Rightarrow> pyval \<Rightarrow> client" where
  "set_tokens e c tok rtok =
     (let c1 = c\<lparr>access_token := tok, refresh_token := rtok\<rparr>;
          c2 = (case jwt e of
                  None \<Rightarrow> c1
                | Some decode \<Rightarrow>
                    (case decode tok of
                       None \<Rightarrow> c1\<lparr>access_expires_at := PNone\<rparr>
                     | Some decoded \<Rightarrow>
                         (let exp = (case map_of decoded ''exp'' of None \<Rightarrow> PNone | Some v \<Rightarrow> v)
                          in if truthy exp
                             then (case py_int e exp of
                                     None \<Rightarrow> c1\<lparr>access_expires_at := PNone\<rparr>
                                   | Some n \<Rightarrow> c1\<lparr>access_expires_at := PInt (n - 60)\<rparr>)
                             else c1)));
          c3 = ensure_session c2
      in if truthy (access_token c3)
         then c3\<lparr>session :=
                   map_option (\<lambda>s. Session (Some (''Bearer '' @ py_str e (access_token c3)))) (session c3)\<rparr>
         else c3)"

text \<open>\<^verbatim>\<open>_is_token_expired\<close> (lines 300-306); the clock is read in the last line only.\<close>

definition is_token_expired :: "env \<Rightarrow> client \<Rightarrow> world \<Rightarrow> error + bool" where
  "is_token_expired e c w =
     (if \<not> truthy (access_token c) then Inr True
      else if is_none (access_expires_at c) then Inr False
      else py_time_ge (clock e (calls w)) (access_expires_at c))"

subsection \<open>Login and refresh\<close>

text \<open>\<^verbatim>\<open>_login\<close> (lines 308-326).\<close>

definition login :: "env \<Rightarrow> client \<Rightarrow> world \<Rightarrow> pyval result" where
  "login e c w =
     (let c1 = ensure_session c;
          url = api_base_url c1 @ ''/auth/login'';
          payload = PDict [(''email'', PStr (username c1)), (''password'', PStr (password c1))]
      in (case session_request e c1 w ''POST'' url (Some payload) 15 of
            (Inl AttributeError, w1) \<Rightarrow> (Inl AttributeError, c1, w1)
          | (Inl err, w1) \<Rightarrow> (Inl (IquaSoftenerException LoginRequestException), c1, w1)
          | (Inr r, w1) \<Rightarrow>
              if status_code r = 401
              then (Inl (IquaSoftenerException (AuthenticationError (resp_text r))), c1, w1)
              else if status_code r \<noteq> 200
              then (Inl (IquaSoftenerException (LoginFailed (status_code r) (resp_text r))), c1, w1)
              else (case resp_json r of
                      None \<Rightarrow> (Inl JSONDecodeError, c1, w1)
                    | Some data \<Rightarrow>
                        (case py_get data ''access_token'' PNone of
                           Inl err \<Rightarrow> (Inl err, c1, w1)
                         | Inr tok \<Rightarrow>
                             (case py_get data ''refresh_token'' PNone of
                                Inl err \<Rightarrow> (Inl err, c1, w1)
                              | Inr rtok \<Rightarrow>
                                  (let c2 = set_tokens e c1 tok rtok
                                   in (case py_get data ''user_id'' PNone of
                                         Inl err \<Rightarrow> (Inl err, c2, w1)
                                       | Inr uid \<Rightarrow> (Inr data, c2\<lparr>user_id := uid\<rparr>, w1))))))))"

text \<open>
  The body of the method \<^verbatim>\<open>_refresh_token\<close> (lines 328-346). Inside it,
  \<^verbatim>\<open>self._refresh_token\<close> is the stored token.
\<close>

definition refresh_token_method :: "env \<Rightarrow> client \<Rightarrow> world \<Rightarrow> pyval result" where
  "refresh_token_method e c w =
     (if \<not> truthy (refresh_token c) then (Inl (IquaSoftenerException NoRefreshToken), c, w)
      else
        (let c1 = ensure_session c;
             url = api_base_url c1 @ ''/auth/refresh'';
             payload = PDict [(''refresh_token'', refresh_token c1)]
         in (case session_request e c1 w ''POST'' url (Some payload) 15 of
               (Inl AttributeError, w1) \<Rightarrow> (Inl AttributeError, c1, w1)
             | (Inl err, w1) \<Rightarrow> (Inl (IquaSoftenerException RefreshRequestException), c1, w1)
             | (Inr r, w1) \<Rightarrow>
                 if status_code r \<noteq> 200
                 then (Inl (IquaSoftenerException (RefreshFailed (status_code r) (resp_text r))), c1, w1)
                 else (case resp_json r of
                         None \<Rightarrow> (Inl JSONDecodeError, c1, w1)
                       | Some data \<Rightarrow>
                           (case py_get data ''access_token'' PNone of
                              Inl err \<Rightarrow> (Inl err, c1, w1)
                            | Inr tok \<Rightarrow>
                                (case py_get data ''refresh_token'' PNone of
                                   Inl err \<Rightarrow> (Inl err, c1, w1)
                                 | Inr rtok \<Rightarrow> (Inr data, set_tokens e c1 tok rtok, w1)))))))"

text \<open>
  The expression \<^verbatim>\<open>self._refresh_token\<close>. The class defines the function
  \<^verbatim>\<open>_refresh_token\<close> (line 328) and \<^verbatim>\<open>__init__\<close> stores an instance
  attribute of the same name (line 75). Attribute lookup on an instance finds the entry
  of the instance dictionary before a plain function of the class, so the expression
  yields the stored value, never the bound method.
\<close>

datatype attr = Stored pyval | Bound_refresh_token

definition lookup_refresh_token :: "client \<Rightarrow> attr" where
  "lookup_refresh_token c = Stored (refresh_token c)"

text \<open>
  A call \<^verbatim>\<open>f()\<close> of what the lookup gave: a bound method runs its body; None, a
  boolean, an integer, a string, a list or a dictionary is not callable.
\<close>

fun call_attr :: "env \<Rightarrow> attr \<Rightarrow> client \<Rightarrow> world \<Rightarrow> pyval result" where
  "call_attr e Bound_refresh_token c w = refresh_token_method e c w"
| "call_attr e (Stored v) c w = (Inl TypeError, c, w)"

fun is_IquaSoftenerException :: "error \<Rightarrow> bool" where
  "is_IquaSoftenerException (IquaSoftenerException m) = True"
| "is_IquaSoftenerException _ = False"

subsection \<open>The session gate and the request pipeline\<close>

text \<open>\<^verbatim>\<open>_ensure_authenticated\<close> (lines 348-357).\<close>

definition ensure_authenticated :: "env \<Rightarrow> client \<Rightarrow> world \<Rightarrow> unit result" where
  "ensure_authenticated e c w =
     (case is_token_expired e c w of
        Inl err \<Rightarrow> (Inl err, c, w)
      | Inr expired \<Rightarrow>
          if expired
          then (case (if truthy (refresh_token c)
                      then call_attr e (lookup_refresh_token c) c w
                      else login e c w) of
                  (Inr d, c1, w1) \<Rightarrow> (Inr (), c1, w1)
                | (Inl err, c1, w1) \<Rightarrow>
                    if is_IquaSoftenerException err
                    then (case login e c1 w1 of
                            (Inr d, c2, w2) \<Rightarrow> (Inr (), c2, w2)
                          | (Inl err2, c2, w2) \<Rightarrow> (Inl err2, c2, w2))
                    else (Inl err, c1, w1))
          else (Inr (), c, w))"

text \<open>
  \<^verbatim>\<open>Response.raise_for_status()\<close> of the requests library raises
  \<^verbatim>\<open>HTTPError\<close> for a status from 400 to 599 and returns for any other status.
\<close>

definition raise_for_status :: "response \<Rightarrow> error option" where
  "raise_for_status r =
     (if 400 \<le> status_code r \<and> status_code r < 600 then Some (HTTPError (status_code r)) else None)"

definition startswith :: "string \<Rightarrow> string \<Rightarrow> bool" where
  "startswith s p = (take (length p) s = p)"

definition lstrip :: "string \<Rightarrow> char \<Rightarrow> string" where
  "lstrip s ch = dropWhile (\<lambda>x. x = ch) s"

definition rstrip :: "string \<Rightarrow> char \<Rightarrow> string" where
  "rstrip s ch = rev (dropWhile (\<lambda>x. x = ch) (rev s))"

text \<open>
  The \<^verbatim>\<open>try\<close> statement of lines 372-377, entered after a 401 while a refresh
  token is held: the retried request is inside the \<^verbatim>\<open>try\<close>, and only an
  \<^verbatim>\<open>IquaSoftenerException\<close> reaches the handler.
\<close>

definition recover_401 ::
  "env \<Rightarrow> client \<Rightarrow> world \<Rightarrow> string \<Rightarrow> string \<Rightarrow> pyval option \<Rightarrow> response result" where
  "recover_401 e c w m url j =
     (case call_attr e (lookup_refresh_token c) c w of
        (Inr d, c1, w1) \<Rightarrow>
          (case session_request e c1 w1 m url j 20 of
             (Inl err, w2) \<Rightarrow> (Inl err, c1, w2)
           | (Inr r, w2) \<Rightarrow> (Inr r, c1, w2))
      | (Inl err, c1, w1) \<Rightarrow>
          if is_IquaSoftenerException err
          then (case login e c1 w1 of
                  (Inl err2, c2, w2) \<Rightarrow> (Inl err2, c2, w2)
                | (Inr d, c2, w2) \<Rightarrow>
                    (case session_request e c2 w2 m url j 20 of
                       (Inl err3, w3) \<Rightarrow> (Inl err3, c2, w3)
                     | (Inr r, w3) \<Rightarrow> (Inr r, c2, w3)))
          else (Inl err, c1, w1))"

text \<open>\<^verbatim>\<open>_request\<close> (lines 359-381); \<open>j\<close> is the \<^verbatim>\<open>json=\<close> keyword argument.\<close>

definition request ::
  "env \<Rightarrow> client \<Rightarrow> world \<Rightarrow> string \<Rightarrow> string \<Rightarrow> pyval option \<Rightarrow> response result" where
  "request e c w m path j =
     (case ensure_authenticated e c w of
        (Inl err, c1, w1) \<Rightarrow> (Inl err, c1, w1)
      | (Inr u, c1, w1) \<Rightarrow>
          (let c2 = ensure_session c1;
               url = (if startswith path ''http'' then path
                      else rstrip (api_base_url c2) CHR ''/'' @ ''/'' @ lstrip path CHR ''/'')
           in (case session_request e c2 w1 m url j 20 of
                 (Inl err, w2) \<Rightarrow> (Inl err, c2, w2)
               | (Inr r, w2) \<Rightarrow>
                   (case (if status_code r = 401 \<and> truthy (refresh_token c2)
                          then recover_401 e c2 w2 m url j
                          else (Inr r, c2, w2)) of
                      (Inl err, c3, w3) \<Rightarrow> (Inl err, c3, w3)
                    | (Inr r', c3, w3) \<Rightarrow>
                        if status_code r' \<noteq> 200
                        then (case raise_for_status r' of
                                Some err \<Rightarrow> (Inl err, c3, w3)
                              | None \<Rightarrow> (Inr r', c3, w3))
                        else (Inr r', c3, w3)))))"

subsection \<open>Devices\<close>

text \<open>\<^verbatim>\<open>_get_devices\<close> (lines 270-274).\<close>

definition get_devices :: "env \<Rightarrow> client \<Rightarrow> world \<Rightarrow> pyval result" where
  "get_devices e c w =
     (case request e c w ''GET'' ''/devices'' None of
        (Inl err, c1, w1) \<Rightarrow> (Inl err, c1, w1)
      | (Inr r, c1, w1) \<Rightarrow>
          (case resp_json r of
             None \<Rightarrow> (Inl JSONDecodeError, c1, w1)
           | Some data \<Rightarrow>
               (case py_get data ''data'' (PList []) of
                  Inl err \<Rightarrow> (Inl err, c1, w1)
                | Inr v \<Rightarrow> (Inr v, c1, w1))))"

text \<open>
  \<^verbatim>\<open>device.get("properties", {}).get("serial_number", {}).get("value")\<close>
  (line 259).
\<close>

definition device_serial :: "pyval \<Rightarrow> error + pyval" where
  "device_serial device =
     (case py_get device ''properties'' (PDict []) of
        Inl err \<Rightarrow> Inl err
      | Inr props \<Rightarrow>
          (case py_get props ''serial_number'' (PDict []) of
             Inl err \<Rightarrow> Inl err
           | Inr sn \<Rightarrow> py_get sn ''value'' PNone))"

text \<open>
  The loop of lines 256-264 over the devices: \<open>Inr (Some i)\<close> when a device matches and
  its id \<open>i\<close> is returned, \<open>Inr None\<close> when the loop ends without a match.
\<close>

fun find_device :: "string \<Rightarrow> pyval list \<Rightarrow> error + pyval option" where
  "find_device serial [] = Inr None"
| "find_device serial (device # rest) =
     (case device_serial device of
        Inl err \<Rightarrow> Inl err
      | Inr s \<Rightarrow>
          if s = PStr serial
          then (case py_getitem device ''id'' of Inl err \<Rightarrow> Inl err | Inr i \<Rightarrow> Inr (Some i))
          else find_device serial rest)"

text \<open>\<^verbatim>\<open>_get_device_id\<close> (lines 249-268).\<close>

definition get_device_id :: "env \<Rightarrow> client \<Rightarrow> world \<Rightarrow> pyval result" where
  "get_device_id e c w =
     (if \<not> is_none (device_id c) then (Inr (device_id c), c, w)
      else
        (case get_devices e c w of
           (Inl err, c1, w1) \<Rightarrow> (Inl err, c1, w1)
         | (Inr devices, c1, w1) \<Rightarrow>
             (case py_iter devices of
                Inl err \<Rightarrow> (Inl err, c1, w1)
              | Inr ds \<Rightarrow>
                  (case find_device (device_serial_number c1) ds of
                     Inl err \<Rightarrow> (Inl err, c1, w1)
                   | Inr (Some i) \<Rightarrow> (Inr i, c1\<lparr>device_id := i\<rparr>, w1)
                   | Inr None \<Rightarrow>
                       (Inl (IquaSoftenerException (DeviceNotFound (device_serial_number c1))),
                        c1, w1)))))"

subsection \<open>The shutoff valve\<close>

text \<open>\<^verbatim>\<open>set_water_shutoff_valve\<close> (lines 146-165).\<close>

definition set_water_shutoff_valve :: "env \<Rightarrow> client \<Rightarrow> world \<Rightarrow> int \<Rightarrow> pyval result" where
  "set_water_shutoff_valve e c w state =
     (if state \<noteq> 0 \<and> state \<noteq> 1 then (Inl ValueError, c, w)
      else
        (case get_device_id e c w of
           (Inl err, c1, w1) \<Rightarrow> (Inl err, c1, w1)
         | (Inr did, c1, w1) \<Rightarrow>
             (let url = ''/devices/'' @ py_str e did @ ''/command'';
                  action = (if state = 1 then ''close'' else ''open'');
                  payload = PDict [(''function'', PStr ''water_shutoff_valve''),
                                   (''action'', PStr action)]
              in (case request e c1 w1 ''PUT'' url (Some payload) of
                    (Inl err, c2, w2) \<Rightarrow> (Inl err, c2, w2)
                  | (Inr r, c2, w2) \<Rightarrow>
                      if status_code r \<noteq> 200
                      then (Inl (IquaSoftenerException (InvalidStatus (status_code r))), c2, w2)
                      else (case resp_json r of
                              None \<Rightarrow> (Inl JSONDecodeError, c2, w2)
                            | Some d \<Rightarrow> (Inr d, c2, w2))))))"

subsection \<open>Saving and loading the tokens\<close>

text \<open>
  A file written by \<^verbatim>\<open>json.dump\<close> holds the document \<^verbatim>\<open>json.load\<close> reads
  back: the file system maps a path to the document of the file, not to its text.
\<close>

text \<open>\<^verbatim>\<open>save_tokens\<close> (lines 225-236).\<close>

definition save_tokens :: "env \<Rightarrow> client \<Rightarrow> world \<Rightarrow> string \<Rightarrow> (error + unit) \<times> world" where
  "save_tokens e c w path =
     (if \<not> writable e path then (Inl OSError, w)
      else (Inr (),
            w\<lparr>files := (files w)
                 (path := Some (Json (PDict [(''access_token'', access_token c),
                                             (''refresh_token'', refresh_token c),
                                             (''user_id'', user_id c),
                                             (''_access_expires_at'', access_expires_at c)])))\<rparr>))"

text \<open>\<^verbatim>\<open>load_tokens\<close> (lines 238-247).\<close>

definition load_tokens :: "client \<Rightarrow> world \<Rightarrow> string \<Rightarrow> (error + unit) \<times> client" where
  "load_tokens c w path =
     (case files w path of
        None \<Rightarrow> (Inr (), c)
      | Some Unreadable \<Rightarrow> (Inl OSError, c)
      | Some Malformed \<Rightarrow> (Inl JSONDecodeError, c)
      | Some (Json data) \<Rightarrow>
          (case py_get data ''access_token'' PNone of
             Inl err \<Rightarrow> (Inl err, c)
           | Inr tok \<Rightarrow>
               (case py_get data ''refresh_token'' PNone of
                  Inl err \<Rightarrow> (Inl err, c\<lparr>access_token := tok\<rparr>)
                | Inr rtok \<Rightarrow>
                    (case py_get data ''user_id'' PNone of
                       Inl err \<Rightarrow> (Inl err, c\<lparr>access_token := tok, refresh_token := rtok\<rparr>)
                     | Inr uid \<Rightarrow>
                         (case py_get data ''_access_expires_at'' PNone of
                            Inl err \<Rightarrow>
                              (Inl err, c\<lparr>access_token := tok, refresh_token := rtok, user_id := uid\<rparr>)
                          | Inr ex \<Rightarrow>
                              (Inr (), c\<lparr>access_token := tok, refresh_token := rtok,
                                         user_id := uid, access_expires_at := ex\<rparr>))))))"

subsection \<open>Scenarios\<close>

text \<open>
  Concrete clients, servers and clocks on which the operations are run below. An
  environment built by \<open>constant_env\<close> has a fixed clock reading, a \<^verbatim>\<open>jwt\<close> module
  whose decoder is given, and accepts every write.
\<close>

definition constant_env ::
  "(http_call list \<Rightarrow> outcome) \<Rightarrow> real \<Rightarrow> (pyval \<Rightarrow> (string \<times> pyval) list option) \<Rightarrow> env" where
  "constant_env srv t dec =
     \<lparr>server = srv, clock = (\<lambda>log. t), jwt = Some dec, int_of_str = (\<lambda>s. None),
      str_of = (\<lambda>v. ''<value>''), writable = (\<lambda>p. True)\<rparr>"

definition empty_world :: world where
  "empty_world = \<lparr>calls = [], files = (\<lambda>p. None)\<rparr>"

definition ok_response :: "pyval \<Rightarrow> response" where
  "ok_response body = \<lparr>status_code = 200, resp_text = [], resp_json = Some body\<rparr>"

definition status_response :: "int \<Rightarrow> response" where
  "status_response n = \<lparr>status_code = n, resp_text = [], resp_json = None\<rparr>"

definition token_envelope :: pyval where
  "token_envelope =
     PDict [(''access_token'', PStr ''new''), (''refresh_token'', PStr ''r2''),
            (''user_id'', PStr ''u1'')]"

definition new_client :: client where
  "new_client = init ''user@example.org'' ''secret'' ''SN1'' DEFAULT_API_BASE_URL"

text \<open>A client whose access token expired at 100, holding a refresh token.\<close>

definition expired_client :: client where
  "expired_client =
     new_client\<lparr>access_token := PStr ''old'', refresh_token := PStr ''r1'',
                access_expires_at := PInt 100\<rparr>"

text \<open>
  A server that grants every login and refresh, at time 200; the payload of every
  access token decodes to a dictionary without \<^verbatim>\<open>exp\<close>.
\<close>

definition granting_env :: env where
  "granting_env =
     constant_env (\<lambda>log. Responded (ok_response token_envelope)) 200 (\<lambda>tok. Some [])"

text \<open>A client with an access token of unknown expiry and a refresh token.\<close>

definition valid_client :: client where
  "valid_client = new_client\<lparr>access_token := PStr ''tok'', refresh_token := PStr ''r1''\<rparr>"

text \<open>A server that answers 401 to the first call it receives and grants every later one.\<close>

definition once_401_env :: env where
  "once_401_env =
     constant_env (\<lambda>log. if length log = 1 then Responded (status_response 401)
                          else Responded (ok_response token_envelope))
       200 (\<lambda>tok. Some [])"

text \<open>A client after a login: an access token of unknown expiry, no refresh token.\<close>

definition logged_in_client :: client where
  "logged_in_client =
     new_client\<lparr>access_token := PStr ''tok'', session := Some (Session (Some ''Bearer tok''))\<rparr>"

definition no_content_env :: env where
  "no_content_env = constant_env (\<lambda>log. Responded (status_response 204)) 200 (\<lambda>tok. Some [])"

definition accepted_env :: env where
  "accepted_env =
     constant_env
       (\<lambda>log. Responded \<lparr>status_code = 202, resp_text = [], resp_json = Some (PDict [])\<rparr>)
       200 (\<lambda>tok. Some [])"

text \<open>Access tokens whose payload carries \<^verbatim>\<open>exp = 0\<close>, at time 5000.\<close>

definition epoch_env :: env where
  "epoch_env = constant_env (\<lambda>log. TransportFailure) 5000 (\<lambda>tok. Some [(''exp'', PInt 0)])"

definition device :: "string \<Rightarrow> string \<Rightarrow> pyval" where
  "device i sn =
     PDict [(''id'', PStr i),
            (''properties'', PDict [(''serial_number'', PDict [(''value'', PStr sn)])])]"

definition device_list :: "pyval list" where
  "device_list = [device ''d7'' ''SN0'', device ''d8'' ''SN1'']"

definition devices_env :: env where
  "devices_env =
     constant_env (\<lambda>log. Responded (ok_response (PDict [(''data'', PList device_list)])))
       200 (\<lambda>tok. Some [])"

definition devices_call :: http_call where
  "devices_call =
     \<lparr>call_method = ''GET'', call_url = ''https://api.myiquaapp.com/v1/devices'',
      call_json = None, call_authorization = Some ''Bearer tok'', call_timeout = 20\<rparr>"

text \<open>A token file that holds the key \<^verbatim>\<open>access_token\<close> only.\<close>

definition partial_world :: world where
  "partial_world =
     \<lparr>calls = [],
      files = (\<lambda>p. if p = ''t.json'' then Some (Json (PDict [(''access_token'', PStr ''a'')]))
                    else None)\<rparr>"

text \<open>The world after \<open>expired_client\<close> has saved its tokens.\<close>

definition saved_world :: world where
  "saved_world = snd (save_tokens granting_env expired_client empty_world ''t.json'')"

text \<open>A client that has resolved its device id, and one configured with an unknown serial.\<close>

definition cached_client :: client where
  "cached_client = logged_in_client\<lparr>device_id := PStr ''d8''\<rparr>"

definition stranger_client :: client where
  "stranger_client = logged_in_client\<lparr>device_serial_number := ''SN9''\<rparr>"

section \<open>Properties\<close>

subsection \<open>Auxiliary facts\<close>

lemmas scenario_defs =
  constant_env_def empty_world_def ok_response_def status_response_def token_envelope_def
  new_client_def init_def DEFAULT_API_BASE_URL_def expired_client_def granting_env_def
  logged_in_client_def

lemmas pipeline_defs =
  request_def ensure_authenticated_def is_token_expired_def session_request_def
  ensure_session_def startswith_def lstrip_def rstrip_def raise_for_status_def
  lookup_refresh_token_def recover_401_def

text \<open>
  Since \<open>lookup_refresh_token\<close> always yields the stored value, the recovery after a 401
  never gets past its first statement.
\<close>

lemma recover_401_TypeError: "recover_401 e c w m url j = (Inl TypeError, c, w)"
  by (simp add: recover_401_def lookup_refresh_token_def)

lemma ensure_authenticated_TypeError:
  "truthy (refresh_token c) \<Longrightarrow> is_token_expired e c w = Inr True \<Longrightarrow>
   ensure_authenticated e c w = (Inl TypeError, c, w)"
  by (simp add: ensure_authenticated_def lookup_refresh_token_def)

lemma ensure_session_Some: "session (ensure_session c) \<noteq> None"
  by (simp add: ensure_session_def split: option.splits)

lemma set_tokens_access_token: "access_token (set_tokens e c tok rtok) = tok"
  by (simp add: set_tokens_def ensure_session_def Let_def split: option.splits)

lemma set_tokens_exp:
  "jwt e = Some decode \<Longrightarrow> decode tok = Some payload \<Longrightarrow>
   map_of payload ''exp'' = Some (PInt n) \<Longrightarrow> n \<noteq> 0 \<Longrightarrow>
   access_expires_at (set_tokens e c tok rtok) = PInt (n - 60)"
  by (simp add: set_tokens_def ensure_session_def Let_def split: option.splits)

lemma set_tokens_undecodable:
  "jwt e = Some decode \<Longrightarrow> decode tok = None \<Longrightarrow>
   access_expires_at (set_tokens e c tok rtok) = PNone"
  by (simp add: set_tokens_def ensure_session_def Let_def split: option.splits)

lemma set_tokens_no_exp:
  "jwt e = Some decode \<Longrightarrow> decode tok = Some payload \<Longrightarrow> map_of payload ''exp'' = None \<Longrightarrow>
   access_expires_at (set_tokens e c tok rtok) = access_expires_at c"
  by (simp add: set_tokens_def ensure_session_def Let_def split: option.splits)

lemma is_token_expired_int:
  "truthy (access_token c) \<Longrightarrow> access_expires_at c = PInt x \<Longrightarrow>
   is_token_expired e c w = Inr (real_of_int x \<le> clock e (calls w))"
  by (simp add: is_token_expired_def)

text \<open>The last step of \<open>request\<close>, when no recovery is entered.\<close>

lemma request_final_status:
  assumes "ensure_authenticated e c w = (Inr (), c1, w1)"
    and "session_request e (ensure_session c1) w1 m
           (if startswith path ''http'' then path
            else rstrip (api_base_url (ensure_session c1)) CHR ''/'' @ ''/'' @ lstrip path CHR ''/'')
           j 20 = (Inr r, w2)"
    and "status_code r \<noteq> 401"
  shows "request e c w m path j =
           ((if 400 \<le> status_code r \<and> status_code r < 600 then Inl (HTTPError (status_code r))
             else Inr r), ensure_session c1, w2)"
  using assms by (simp add: request_def raise_for_status_def Let_def)

text \<open>
  A 401 answer while a refresh token is held: the recovery raises \<^verbatim>\<open>TypeError\<close>
  and the request is not retried, for every client, server and world.
\<close>

lemma request_401_TypeError:
  assumes "ensure_authenticated e c w = (Inr (), c1, w1)"
    and "session_request e (ensure_session c1) w1 m
           (if startswith path ''http'' then path
            else rstrip (api_base_url (ensure_session c1)) CHR ''/'' @ ''/'' @ lstrip path CHR ''/'')
           j 20 = (Inr r, w2)"
    and "status_code r = 401" "truthy (refresh_token c1)"
  shows "request e c w m path j = (Inl TypeError, ensure_session c1, w2)"
proof -
  have "refresh_token (ensure_session c1) = refresh_token c1"
    by (simp add: ensure_session_def split: option.splits)
  with assms show ?thesis
    by (simp add: request_def recover_401_TypeError Let_def)
qed

lemma load_tokens_dict:
  "files w path = Some (Json (PDict d)) \<Longrightarrow>
   load_tokens c w path =
     (Inr (),
      c\<lparr>access_token := (case map_of d ''access_token'' of None \<Rightarrow> PNone | Some v \<Rightarrow> v),
        refresh_token := (case map_of d ''refresh_token'' of None \<Rightarrow> PNone | Some v \<Rightarrow> v),
        user_id := (case map_of d ''user_id'' of None \<Rightarrow> PNone | Some v \<Rightarrow> v),
        access_expires_at :=
          (case map_of d ''_access_expires_at'' of None \<Rightarrow> PNone | Some v \<Rightarrow> v)\<rparr>)"
  by (simp add: load_tokens_def)

lemma save_then_load:
  "save_tokens e c w path = (Inr (), w') \<Longrightarrow>
   load_tokens c0 w' path =
     (Inr (), c0\<lparr>access_token := access_token c, refresh_token := refresh_token c,
                 user_id := user_id c, access_expires_at := access_expires_at c\<rparr>)"
  by (auto simp add: save_tokens_def load_tokens_def split: if_splits)

text \<open>
  The loop over the devices: with every device well formed, a single matching device is
  the one found, and no matching device ends the loop without a result.
\<close>

lemma find_device_unique:
  "\<forall>x\<in>set ds. \<not> isl (device_serial x) \<Longrightarrow>
   filter (\<lambda>x. device_serial x = Inr (PStr serial)) ds = [d] \<Longrightarrow>
   py_getitem d ''id'' = Inr i \<Longrightarrow> find_device serial ds = Inr (Some i)"
proof (induction ds)
  case Nil
  then show ?case by simp
next
  case (Cons x xs)
  from Cons.prems(1) obtain s where s: "device_serial x = Inr s"
    by (cases "device_serial x") auto
  show ?case
  proof (cases "s = PStr serial")
    case True
    with s Cons.prems(2) have "x = d" by simp
    with s True Cons.prems(3) show ?thesis by simp
  next
    case False
    with s Cons.prems(2) have "filter (\<lambda>x. device_serial x = Inr (PStr serial)) xs = [d]"
      by simp
    with Cons.IH Cons.prems(1,3) have "find_device serial xs = Inr (Some i)" by simp
    with s False show ?thesis by simp
  qed
qed

lemma find_device_none:
  "\<forall>x\<in>set ds. \<not> isl (device_serial x) \<Longrightarrow>
   filter (\<lambda>x. device_serial x = Inr (PStr serial)) ds = [] \<Longrightarrow>
   find_device serial ds = Inr None"
proof (induction ds)
  case Nil
  then show ?case by simp
next
  case (Cons x xs)
  from Cons.prems(1) obtain s where s: "device_serial x = Inr s"
    by (cases "device_serial x") auto
  from s Cons.prems(2) have ne: "s \<noteq> PStr serial" by (auto split: if_splits)
  with s Cons.prems(2) have "filter (\<lambda>x. device_serial x = Inr (PStr serial)) xs = []" by simp
  with Cons.IH Cons.prems(1) have "find_device serial xs = Inr None" by simp
  with s ne show ?case by simp
qed

lemma get_device_id_cached:
  "\<not> is_none (device_id c) \<Longrightarrow> get_device_id e c w = (Inr (device_id c), c, w)"
  by (simp add: get_device_id_def)

lemma get_device_id_found:
  assumes "is_none (device_id c)" "get_devices e c w = (Inr v, c1, w1)" "py_iter v = Inr ds"
    "find_device (device_serial_number c1) ds = Inr (Some i)"
  shows "get_device_id e c w = (Inr i, c1\<lparr>device_id := i\<rparr>, w1)"
  using assms by (simp add: get_device_id_def)

lemma get_device_id_not_found:
  assumes "is_none (device_id c)" "get_devices e c w = (Inr v, c1, w1)" "py_iter v = Inr ds"
    "find_device (device_serial_number c1) ds = Inr None"
  shows "get_device_id e c w =
           (Inl (IquaSoftenerException (DeviceNotFound (device_serial_number c1))), c1, w1)"
  using assms by (simp add: get_device_id_def)

text \<open>
  After a passed authentication check, \<open>request\<close> adds exactly one call to the log: the
  request itself.
\<close>

lemma request_calls:
  assumes "ensure_authenticated e c w = (Inr (), c1, w1)" "\<not> startswith path ''http''"
  shows "calls (snd (snd (request e c w m path j))) =
           calls w1 @
           [\<lparr>call_method = m,
             call_url = rstrip (api_base_url c1) CHR ''/'' @ ''/'' @ lstrip path CHR ''/'',
             call_json = j,
             call_authorization = (case session c1 of None \<Rightarrow> None | Some s \<Rightarrow> authorization s),
             call_timeout = 20\<rparr>]"
proof -
  obtain s where s: "session (ensure_session c1) = Some s"
    using ensure_session_Some by blast
  have a: "authorization s = (case session c1 of None \<Rightarrow> None | Some s \<Rightarrow> authorization s)"
    using s by (auto simp: ensure_session_def split: option.splits)
  have b: "api_base_url (ensure_session c1) = api_base_url c1"
    by (simp add: ensure_session_def split: option.splits)
  show ?thesis
    using assms s a b
    by (simp add: request_def session_request_def recover_401_TypeError Let_def
          split: outcome.splits option.splits)
qed

lemma valve_request:
  assumes "state = 0 \<or> state = 1" "get_device_id e c w = (Inr did, c1, w1)"
  shows "snd (snd (set_water_shutoff_valve e c w state)) =
         snd (snd (request e c1 w1 ''PUT'' (''/devices/'' @ py_str e did @ ''/command'')
            (Some (PDict [(''function'', PStr ''water_shutoff_valve''),
                          (''action'', PStr (if state = 1 then ''close'' else ''open''))]))))"
  using assms
  by (auto simp add: set_water_shutoff_valve_def Let_def
        split: prod.splits sum.splits option.splits)

lemma valve_calls:
  assumes "state = 0 \<or> state = 1" "get_device_id e c w = (Inr did, c1, w1)"
    "ensure_authenticated e c1 w1 = (Inr (), c2, w2)"
  shows "calls (snd (snd (set_water_shutoff_valve e c w state))) =
           calls w2 @
           [\<lparr>call_method = ''PUT'',
             call_url = rstrip (api_base_url c2) CHR ''/'' @ ''/devices/'' @ py_str e did @ ''/command'',
             call_json = Some (PDict [(''function'', PStr ''water_shutoff_valve''),
                                      (''action'', PStr (if state = 1 then ''close'' else ''open''))]),
             call_authorization = (case session c2 of None \<Rightarrow> None | Some s \<Rightarrow> authorization s),
             call_timeout = 20\<rparr>]"
proof -
  have ns: "\<not> startswith (''/devices/'' @ py_str e did @ ''/command'') ''http''"
    by (simp add: startswith_def)
  have ls: "lstrip (''/devices/'' @ py_str e did @ ''/command'') CHR ''/''
              = ''devices/'' @ py_str e did @ ''/command''"
    by (simp add: lstrip_def)
  show ?thesis
    using request_calls[OF assms(3) ns] ls
    by (simp add: valve_request[OF assms(1,2)])
qed

text \<open>The scenarios, run.\<close>

lemma devices_env_get_devices:
  "get_devices devices_env logged_in_client empty_world =
     (Inr (PList device_list), logged_in_client, empty_world\<lparr>calls := [devices_call]\<rparr>)"
  by (simp add: get_devices_def pipeline_defs scenario_defs devices_env_def devices_call_def)

lemma devices_env_get_devices_stranger:
  "get_devices devices_env stranger_client empty_world =
     (Inr (PList device_list), stranger_client, empty_world\<lparr>calls := [devices_call]\<rparr>)"
  by (simp add: get_devices_def pipeline_defs scenario_defs devices_env_def devices_call_def
        stranger_client_def)

lemma device_list_well_formed: "\<forall>x\<in>set device_list. \<not> isl (device_serial x)"
  by (simp add: device_list_def device_def device_serial_def)

lemma device_list_SN1:
  "filter (\<lambda>x. device_serial x = Inr (PStr ''SN1'')) device_list = [device ''d8'' ''SN1'']"
  by (simp add: device_list_def device_def device_serial_def)

lemma device_list_SN9:
  "filter (\<lambda>x. device_serial x = Inr (PStr ''SN9'')) device_list = []"
  by (simp add: device_list_def device_def device_serial_def)

lemma cached_client_authenticated:
  "ensure_authenticated devices_env cached_client empty_world = (Inr (), cached_client, empty_world)"
  by (simp add: ensure_authenticated_def is_token_expired_def scenario_defs cached_client_def)

subsection \<open>The session gate (C1)\<close>

text \<open>
  C1. The specification: with a refresh token held and the access token at or past its
  derived expiry, a call entering the request pipeline first attempts a token refresh;
  a login follows only when that refresh fails with the library's error, and a failed
  login aborts the call. The source calls \<^verbatim>\<open>self._refresh_token()\<close> for the
  refresh (line 353); that expression is the stored token, a string, and calling it
  raises \<^verbatim>\<open>TypeError\<close>, which \<^verbatim>\<open>except IquaSoftenerException\<close> does not
  handle. For \<open>expired_client\<close> (refresh token \<^verbatim>\<open>"r1"\<close>, expiry 100, clock 200) and a
  server that would grant every refresh and login, the call ends with
  \<^verbatim>\<open>TypeError\<close>, the client unchanged and no request sent: neither a refresh nor
  a login is attempted.
\<close>

theorem expired_token_refresh_raises_TypeError:
  "truthy (refresh_token expired_client) \<and>
   is_token_expired granting_env expired_client empty_world = Inr True \<and>
   ensure_authenticated granting_env expired_client empty_world
     = (Inl TypeError, expired_client, empty_world) \<and>
   request granting_env expired_client empty_world ''GET'' ''/devices'' None
     = (Inl TypeError, expired_client, empty_world) \<and>
   calls empty_world = []"
  by (simp add: pipeline_defs scenario_defs)

subsection \<open>Recovery from a 401 (C2)\<close>

text \<open>
  C2. The specification: a request answered with 401 while a refresh token is held is
  followed by one recovery (refresh, then login if the refresh fails) and one retry of
  the request. The source enters the recovery with \<^verbatim>\<open>self._refresh_token()\<close>
  (line 373), which raises \<^verbatim>\<open>TypeError\<close> as in C1. For \<open>valid_client\<close> and a
  server that answers 401 once and grants everything afterwards, the call ends with
  \<^verbatim>\<open>TypeError\<close> after the one request: no refresh, no login, no retry.
\<close>

theorem recovery_after_401_raises_TypeError:
  "truthy (refresh_token valid_client) \<and>
   is_token_expired once_401_env valid_client empty_world = Inr False \<and>
   fst (request once_401_env valid_client empty_world ''GET'' ''/devices'' None) = Inl TypeError \<and>
   calls (snd (snd (request once_401_env valid_client empty_world ''GET'' ''/devices'' None)))
     = [\<lparr>call_method = ''GET'', call_url = ''https://api.myiquaapp.com/v1/devices'',
         call_json = None, call_authorization = None, call_timeout = 20\<rparr>]"
  by (simp add: pipeline_defs scenario_defs valid_client_def once_401_env_def)

subsection \<open>The final status (C3)\<close>

text \<open>
  C3. The specification: a request whose final status is not 200 fails with an error
  carrying that status, and no operation fails silently on such a status. The source
  calls \<^verbatim>\<open>raise_for_status()\<close> when the status is not 200 (lines 379-380), which
  raises for 400 to 599 only. A request answered with 204 returns the response, and
  \<^verbatim>\<open>_get_devices\<close>, which does not look at the status, turns a 202 answer with an
  empty JSON object into an empty device list.
\<close>

theorem request_returns_status_204:
  "fst (request no_content_env logged_in_client empty_world ''GET'' ''/devices'' None)
     = Inr (status_response 204) \<and>
   status_code (status_response 204) = 204 \<and>
   fst (get_devices accepted_env logged_in_client empty_world) = Inr (PList [])"
  by (simp add: get_devices_def pipeline_defs scenario_defs no_content_env_def accepted_env_def)

subsection \<open>Tokens without an expiry claim (C4)\<close>

text \<open>
  C4. The specification: when the new access token cannot be decoded or its payload has
  no \<^verbatim>\<open>exp\<close> claim, the stored derived expiry becomes None, whatever was stored
  before. The source stores None in the \<^verbatim>\<open>except\<close> branch only (line 292); a
  payload without \<^verbatim>\<open>exp\<close> skips the assignment of line 290 and the expiry of the
  previous token stays. For \<open>expired_client\<close> (expiry 100) and a new token whose payload
  has no \<^verbatim>\<open>exp\<close>, the stored expiry is still 100 and the new token is judged expired
  at time 200.
\<close>

theorem stale_expiry_kept_without_exp:
  "access_expires_at expired_client = PInt 100 \<and>
   access_expires_at (set_tokens granting_env expired_client (PStr ''new'') (PStr ''r2''))
     = PInt 100 \<and>
   is_token_expired granting_env
      (set_tokens granting_env expired_client (PStr ''new'') (PStr ''r2'')) empty_world
     = Inr True"
  by (simp add: set_tokens_def is_token_expired_def ensure_session_def scenario_defs)

subsection \<open>Derived expiry and the expiry check (C5)\<close>

text \<open>
  What the code establishes: an integer \<^verbatim>\<open>exp\<close> other than 0 is stored minus 60;
  an integer derived expiry is compared with the clock; a missing or empty access token
  is judged expired and a held token of unknown expiry valid.
\<close>

lemma derived_expiry_and_expiry_check:
  "(jwt e = Some decode \<and> decode tok = Some payload \<and> map_of payload ''exp'' = Some (PInt n) \<and>
      n \<noteq> 0
    \<longrightarrow> access_expires_at (set_tokens e c tok rtok) = PInt (n - 60)) \<and>
   (truthy (access_token c) \<and> access_expires_at c = PInt x
    \<longrightarrow> is_token_expired e c w = Inr (real_of_int x \<le> clock e (calls w))) \<and>
   (\<not> truthy (access_token c) \<longrightarrow> is_token_expired e c w = Inr True) \<and>
   (truthy (access_token c) \<and> access_expires_at c = PNone
    \<longrightarrow> is_token_expired e c w = Inr False) \<and>
   (jwt e = Some decode \<and> decode tok = Some payload \<and>
      map_of payload ''exp'' = Some (PInt (now + 3600)) \<and> now + 3600 \<noteq> 0 \<and> truthy tok \<and>
      clock e (calls w) = real_of_int (now + 3541)
    \<longrightarrow> access_expires_at (set_tokens e c tok rtok) = PInt (now + 3540) \<and>
        is_token_expired e (set_tokens e c tok rtok) w = Inr True)"
proof -
  have "access_expires_at (set_tokens e c tok rtok) = PInt (now + 3540) \<and>
        is_token_expired e (set_tokens e c tok rtok) w = Inr True"
    if h: "jwt e = Some decode" "decode tok = Some payload"
      "map_of payload ''exp'' = Some (PInt (now + 3600))" "now + 3600 \<noteq> 0" "truthy tok"
      "clock e (calls w) = real_of_int (now + 3541)"
  proof -
    have ex: "access_expires_at (set_tokens e c tok rtok) = PInt (now + 3540)"
      using set_tokens_exp[OF h(1,2,3,4), of c rtok] by simp
    have "is_token_expired e (set_tokens e c tok rtok) w
            = Inr (real_of_int (now + 3540) \<le> clock e (calls w))"
      by (rule is_token_expired_int) (simp_all add: set_tokens_access_token h(5) ex)
    with ex h(6) show ?thesis by simp
  qed
  then show ?thesis
    by (simp add: set_tokens_exp is_token_expired_int) (simp add: is_token_expired_def)
qed

text \<open>
  C5. The specification: for every access token whose decoded payload carries a numeric
  \<^verbatim>\<open>exp\<close> claim, the stored derived expiry is \<^verbatim>\<open>exp\<close> minus 60, and the token
  is judged expired exactly when the clock has reached it. The source tests
  \<^verbatim>\<open>if exp:\<close> (line 289), and the number 0 is falsy: for the claim
  \<^verbatim>\<open>exp = 0\<close> the assignment of line 290 is skipped, as it is for a payload without
  the claim. For \<open>expired_client\<close> the expiry 100 of the previous token stays instead of
  -60; for a new client the expiry stays None and the token, whose derived expiry -60
  the clock reading 5000 has long passed, is judged valid.
\<close>

theorem exp_zero_keeps_previous_expiry:
  "access_expires_at (set_tokens epoch_env expired_client (PStr ''t'') (PStr ''r2'')) = PInt 100 \<and>
   access_expires_at (set_tokens epoch_env new_client (PStr ''t'') PNone) = PNone \<and>
   is_token_expired epoch_env (set_tokens epoch_env new_client (PStr ''t'') PNone) empty_world
     = Inr False \<and>
   clock epoch_env (calls empty_world) = 5000"
  by (simp add: set_tokens_def is_token_expired_def ensure_session_def scenario_defs epoch_env_def)

subsection \<open>Saving and restoring the tokens (C6, C10)\<close>

text \<open>
  C6. For every token state (access token, refresh token, user id, derived expiry), a
  successful \<^verbatim>\<open>save_tokens\<close> followed by \<^verbatim>\<open>load_tokens\<close> from the same path
  stores exactly these four values, in whatever client loads them, and gives back the
  saving client itself. Loading a document that is a dictionary sets each of the four
  attributes to the value under its key, taken verbatim, and to None when the key is
  missing.
\<close>

theorem save_load_round_trip:
  "(save_tokens e c w path = (Inr (), w')
    \<longrightarrow> load_tokens c0 w' path =
          (Inr (), c0\<lparr>access_token := access_token c, refresh_token := refresh_token c,
                      user_id := user_id c, access_expires_at := access_expires_at c\<rparr>) \<and>
        load_tokens c w' path = (Inr (), c)) \<and>
   (files w path = Some (Json (PDict d))
    \<longrightarrow> load_tokens c w path =
          (Inr (),
           c\<lparr>access_token := (case map_of d ''access_token'' of None \<Rightarrow> PNone | Some v \<Rightarrow> v),
             refresh_token := (case map_of d ''refresh_token'' of None \<Rightarrow> PNone | Some v \<Rightarrow> v),
             user_id := (case map_of d ''user_id'' of None \<Rightarrow> PNone | Some v \<Rightarrow> v),
             access_expires_at :=
               (case map_of d ''_access_expires_at'' of None \<Rightarrow> PNone | Some v \<Rightarrow> v)\<rparr>))"
proof -
  have "load_tokens c w' path = (Inr (), c)" if "save_tokens e c w path = (Inr (), w')"
    using save_then_load[OF that, of c] by simp
  then show ?thesis
    using save_then_load[of e c w path w' c0] load_tokens_dict[of w path d c] by blast
qed

theorem save_load_round_trip_witness:
  "save_tokens granting_env expired_client empty_world ''t.json'' = (Inr (), saved_world) \<and>
   load_tokens new_client saved_world ''t.json''
     = (Inr (), new_client\<lparr>access_token := PStr ''old'', refresh_token := PStr ''r1'',
                            user_id := PNone, access_expires_at := PInt 100\<rparr>) \<and>
   load_tokens expired_client saved_world ''t.json'' = (Inr (), expired_client) \<and>
   files partial_world ''t.json'' = Some (Json (PDict [(''access_token'', PStr ''a'')])) \<and>
   load_tokens expired_client partial_world ''t.json''
     = (Inr (), expired_client\<lparr>access_token := PStr ''a'', refresh_token := PNone,
                                user_id := PNone, access_expires_at := PNone\<rparr>)"
proof -
  have s: "save_tokens granting_env expired_client empty_world ''t.json'' = (Inr (), saved_world)"
    by (simp add: saved_world_def save_tokens_def granting_env_def constant_env_def)
  have f: "files partial_world ''t.json'' = Some (Json (PDict [(''access_token'', PStr ''a'')]))"
    by (simp add: partial_world_def)
  have x: "access_token expired_client = PStr ''old''" "refresh_token expired_client = PStr ''r1''"
    "user_id expired_client = PNone" "access_expires_at expired_client = PInt 100"
    by (simp_all add: expired_client_def new_client_def init_def)
  show ?thesis
    using save_load_round_trip
      [where e = granting_env and c = expired_client and w = empty_world and path = "''t.json''"
         and w' = saved_world and ?c0.0 = new_client and d = "[]"]
      save_load_round_trip
      [where e = granting_env and c = expired_client and w = partial_world and path = "''t.json''"
         and w' = empty_world and ?c0.0 = new_client
         and d = "[(''access_token'', PStr ''a'')]"]
      s f x
    by simp
qed

text \<open>
  C10. For every client state, \<^verbatim>\<open>load_tokens\<close> with a path that does not exist
  returns without raising and leaves the client, so all four token attributes, unchanged.
\<close>

theorem load_tokens_missing_path:
  "files w path = None \<Longrightarrow> load_tokens c w path = (Inr (), c)"
  by (simp add: load_tokens_def)

theorem load_tokens_missing_path_witness:
  "files empty_world ''tokens.json'' = None \<and>
   load_tokens expired_client empty_world ''tokens.json'' = (Inr (), expired_client)"
  using load_tokens_missing_path[of empty_world "''tokens.json''" expired_client]
  by (simp add: empty_world_def)

subsection \<open>Refresh without a refresh token (C8)\<close>

text \<open>
  The body of the method \<^verbatim>\<open>_refresh_token\<close>, were it run with no refresh token
  held, raises the library's error with the client and the world unchanged.
\<close>

lemma refresh_token_method_without_token:
  "\<not> truthy (refresh_token c) \<Longrightarrow>
   refresh_token_method e c w = (Inl (IquaSoftenerException NoRefreshToken), c, w)"
  by (simp add: refresh_token_method_def)

text \<open>
  The refresh operation as a client invokes it, \<^verbatim>\<open>self._refresh_token()\<close>, never
  reaches that body: for every client it raises \<^verbatim>\<open>TypeError\<close>.
\<close>

lemma call_refresh_token_TypeError:
  "call_attr e (lookup_refresh_token c) c w = (Inl TypeError, c, w)"
  by (simp add: lookup_refresh_token_def)

text \<open>
  C8. The specification: with no refresh token held, invoking the refresh operation
  fails at once with an authentication error, before any network call. On a client the
  name \<^verbatim>\<open>_refresh_token\<close> is the attribute stored by \<^verbatim>\<open>__init__\<close> (line 75),
  here None, and \<^verbatim>\<open>client._refresh_token()\<close> calls None: the failure is a
  \<^verbatim>\<open>TypeError\<close>, not the \<^verbatim>\<open>IquaSoftenerException\<close> of line 331. No network
  call is made. The scenario is a client just constructed.
\<close>

theorem refresh_call_without_token_raises_TypeError:
  "refresh_token new_client = PNone \<and>
   call_attr granting_env (lookup_refresh_token new_client) new_client empty_world
     = (Inl TypeError, new_client, empty_world) \<and>
   calls empty_world = []"
  by (simp add: lookup_refresh_token_def new_client_def init_def empty_world_def)

subsection \<open>Device-id resolution (C7)\<close>

text \<open>
  C7. With no device id cached and a device list of well-formed devices (the lookup of
  \<^verbatim>\<open>properties.serial_number.value\<close> raises on none of them): when exactly one
  device carries the configured serial number, resolution returns the id of that device
  and stores it; when none does, resolution fails with the not-found error. A stored id
  that is not None is returned by every later resolution unchanged, with any server and
  any world, and the world (the log of calls) is left as it was: the device list is not
  consulted again.
\<close>

theorem device_id_resolution:
  "(is_none (device_id c) \<and> get_devices e c w = (Inr v, c1, w1) \<and> py_iter v = Inr ds \<and>
      (\<forall>x\<in>set ds. \<not> isl (device_serial x)) \<and>
      filter (\<lambda>x. device_serial x = Inr (PStr (device_serial_number c1))) ds = [d] \<and>
      py_getitem d ''id'' = Inr i
    \<longrightarrow> get_device_id e c w = (Inr i, c1\<lparr>device_id := i\<rparr>, w1) \<and>
        (\<not> is_none i
         \<longrightarrow> get_device_id e' (c1\<lparr>device_id := i\<rparr>) w' = (Inr i, c1\<lparr>device_id := i\<rparr>, w'))) \<and>
   (is_none (device_id c) \<and> get_devices e c w = (Inr v, c1, w1) \<and> py_iter v = Inr ds \<and>
      (\<forall>x\<in>set ds. \<not> isl (device_serial x)) \<and>
      filter (\<lambda>x. device_serial x = Inr (PStr (device_serial_number c1))) ds = []
    \<longrightarrow> get_device_id e c w =
          (Inl (IquaSoftenerException (DeviceNotFound (device_serial_number c1))), c1, w1)) \<and>
   (\<not> is_none (device_id c) \<longrightarrow> get_device_id e' c w' = (Inr (device_id c), c, w'))"
proof (intro conjI impI)
  assume h: "is_none (device_id c) \<and> get_devices e c w = (Inr v, c1, w1) \<and> py_iter v = Inr ds \<and>
      (\<forall>x\<in>set ds. \<not> isl (device_serial x)) \<and>
      filter (\<lambda>x. device_serial x = Inr (PStr (device_serial_number c1))) ds = [d] \<and>
      py_getitem d ''id'' = Inr i"
  then have "find_device (device_serial_number c1) ds = Inr (Some i)"
    using find_device_unique[of ds "device_serial_number c1" d i] by blast
  with h show "get_device_id e c w = (Inr i, c1\<lparr>device_id := i\<rparr>, w1)"
    using get_device_id_found[of c e w v c1 w1 ds i] by blast
  assume "\<not> is_none i"
  then show "get_device_id e' (c1\<lparr>device_id := i\<rparr>) w' = (Inr i, c1\<lparr>device_id := i\<rparr>, w')"
    using get_device_id_cached[of "c1\<lparr>device_id := i\<rparr>" e' w'] by simp
next
  assume h: "is_none (device_id c) \<and> get_devices e c w = (Inr v, c1, w1) \<and> py_iter v = Inr ds \<and>
      (\<forall>x\<in>set ds. \<not> isl (device_serial x)) \<and>
      filter (\<lambda>x. device_serial x = Inr (PStr (device_serial_number c1))) ds = []"
  then have "find_device (device_serial_number c1) ds = Inr None"
    using find_device_none[of ds "device_serial_number c1"] by blast
  with h show "get_device_id e c w =
          (Inl (IquaSoftenerException (DeviceNotFound (device_serial_number c1))), c1, w1)"
    using get_device_id_not_found[of c e w v c1 w1 ds] by blast
next
  assume "\<not> is_none (device_id c)"
  then show "get_device_id e' c w' = (Inr (device_id c), c, w')"
    by (rule get_device_id_cached)
qed

theorem device_id_resolution_witness:
  "get_devices devices_env logged_in_client empty_world
     = (Inr (PList device_list), logged_in_client, empty_world\<lparr>calls := [devices_call]\<rparr>) \<and>
   filter (\<lambda>x. device_serial x = Inr (PStr ''SN1'')) device_list = [device ''d8'' ''SN1''] \<and>
   get_device_id devices_env logged_in_client empty_world
     = (Inr (PStr ''d8''), cached_client, empty_world\<lparr>calls := [devices_call]\<rparr>) \<and>
   get_device_id no_content_env cached_client empty_world
     = (Inr (PStr ''d8''), cached_client, empty_world) \<and>
   filter (\<lambda>x. device_serial x = Inr (PStr ''SN9'')) device_list = [] \<and>
   get_device_id devices_env stranger_client empty_world
     = (Inl (IquaSoftenerException (DeviceNotFound ''SN9'')), stranger_client,
        empty_world\<lparr>calls := [devices_call]\<rparr>)"
proof -
  have a: "device_id logged_in_client = PNone" "device_serial_number logged_in_client = ''SN1''"
    "device_id stranger_client = PNone" "device_serial_number stranger_client = ''SN9''"
    by (simp_all add: stranger_client_def logged_in_client_def new_client_def init_def)
  have i: "py_getitem (device ''d8'' ''SN1'') ''id'' = Inr (PStr ''d8'')"
    by (simp add: device_def)
  show ?thesis
    using device_id_resolution
      [where c = logged_in_client and e = devices_env and w = empty_world
         and v = "PList device_list" and ?c1.0 = logged_in_client
         and ?w1.0 = "empty_world\<lparr>calls := [devices_call]\<rparr>" and ds = device_list
         and d = "device ''d8'' ''SN1''" and i = "PStr ''d8''" and e' = no_content_env
         and w' = empty_world]
      device_id_resolution
      [where c = stranger_client and e = devices_env and w = empty_world
         and v = "PList device_list" and ?c1.0 = stranger_client
         and ?w1.0 = "empty_world\<lparr>calls := [devices_call]\<rparr>" and ds = device_list
         and d = "device ''d8'' ''SN1''" and i = "PStr ''d8''" and e' = no_content_env
         and w' = empty_world]
      devices_env_get_devices devices_env_get_devices_stranger device_list_well_formed
      device_list_SN1 device_list_SN9 a i
    by (simp add: cached_client_def)
qed

subsection \<open>The shutoff valve command (C9)\<close>

text \<open>
  C9. For every integer state other than 0 and 1, \<^verbatim>\<open>set_water_shutoff_valve\<close>
  raises \<^verbatim>\<open>ValueError\<close> with the client (token state, device-id cache) and the
  world (no call) unchanged. For state 1, once the device id is resolved and the
  authentication check of the request has passed, the request sent is a PUT to the
  command URL of the device with the payload
  \<^verbatim>\<open>{"function": "water_shutoff_valve", "action": "close"}\<close>, and it is the only call
  added; for state 0 the action is \<^verbatim>\<open>"open"\<close>.
\<close>

theorem set_water_shutoff_valve_command:
  "(state \<noteq> 0 \<and> state \<noteq> 1 \<longrightarrow> set_water_shutoff_valve e c w state = (Inl ValueError, c, w)) \<and>
   (get_device_id e c w = (Inr did, c1, w1) \<and> ensure_authenticated e c1 w1 = (Inr (), c2, w2)
    \<longrightarrow> calls (snd (snd (set_water_shutoff_valve e c w 1))) =
          calls w2 @
          [\<lparr>call_method = ''PUT'',
            call_url = rstrip (api_base_url c2) CHR ''/'' @ ''/devices/'' @ py_str e did @ ''/command'',
            call_json = Some (PDict [(''function'', PStr ''water_shutoff_valve''),
                                     (''action'', PStr ''close'')]),
            call_authorization = (case session c2 of None \<Rightarrow> None | Some s \<Rightarrow> authorization s),
            call_timeout = 20\<rparr>] \<and>
        calls (snd (snd (set_water_shutoff_valve e c w 0))) =
          calls w2 @
          [\<lparr>call_method = ''PUT'',
            call_url = rstrip (api_base_url c2) CHR ''/'' @ ''/devices/'' @ py_str e did @ ''/command'',
            call_json = Some (PDict [(''function'', PStr ''water_shutoff_valve''),
                                     (''action'', PStr ''open'')]),
            call_authorization = (case session c2 of None \<Rightarrow> None | Some s \<Rightarrow> authorization s),
            call_timeout = 20\<rparr>])"
proof (intro conjI impI)
  assume "state \<noteq> 0 \<and> state \<noteq> 1"
  then show "set_water_shutoff_valve e c w state = (Inl ValueError, c, w)"
    by (simp add: set_water_shutoff_valve_def)
next
  assume h: "get_device_id e c w = (Inr did, c1, w1) \<and>
             ensure_authenticated e c1 w1 = (Inr (), c2, w2)"
  then show "calls (snd (snd (set_water_shutoff_valve e c w 1))) =
          calls w2 @
          [\<lparr>call_method = ''PUT'',
            call_url = rstrip (api_base_url c2) CHR ''/'' @ ''/devices/'' @ py_str e did @ ''/command'',
            call_json = Some (PDict [(''function'', PStr ''water_shutoff_valve''),
                                     (''action'', PStr ''close'')]),
            call_authorization = (case session c2 of None \<Rightarrow> None | Some s \<Rightarrow> authorization s),
            call_timeout = 20\<rparr>]"
    using valve_calls[of 1 e c w did c1 w1 c2 w2] by simp
  from h show "calls (snd (snd (set_water_shutoff_valve e c w 0))) =
          calls w2 @
          [\<lparr>call_method = ''PUT'',
            call_url = rstrip (api_base_url c2) CHR ''/'' @ ''/devices/'' @ py_str e did @ ''/command'',
            call_json = Some (PDict [(''function'', PStr ''water_shutoff_valve''),
                                     (''action'', PStr ''open'')]),
            call_authorization = (case session c2 of None \<Rightarrow> None | Some s \<Rightarrow> authorization s),
            call_timeout = 20\<rparr>]"
    using valve_calls[of 0 e c w did c1 w1 c2 w2] by simp
qed

theorem set_water_shutoff_valve_command_witness:
  "set_water_shutoff_valve devices_env expired_client empty_world 2
     = (Inl ValueError, expired_client, empty_world) \<and>
   get_device_id devices_env cached_client empty_world
     = (Inr (PStr ''d8''), cached_client, empty_world) \<and>
   ensure_authenticated devices_env cached_client empty_world
     = (Inr (), cached_client, empty_world) \<and>
   calls (snd (snd (set_water_shutoff_valve devices_env cached_client empty_world 1))) =
     [\<lparr>call_method = ''PUT'', call_url = ''https://api.myiquaapp.com/v1/devices/d8/command'',
       call_json = Some (PDict [(''function'', PStr ''water_shutoff_valve''),
                                (''action'', PStr ''close'')]),
       call_authorization = Some ''Bearer tok'', call_timeout = 20\<rparr>] \<and>
   calls (snd (snd (set_water_shutoff_valve devices_env cached_client empty_world 0))) =
     [\<lparr>call_method = ''PUT'', call_url = ''https://api.myiquaapp.com/v1/devices/d8/command'',
       call_json = Some (PDict [(''function'', PStr ''water_shutoff_valve''),
                                (''action'', PStr ''open'')]),
       call_authorization = Some ''Bearer tok'', call_timeout = 20\<rparr>]"
proof -
  have g: "get_device_id devices_env cached_client empty_world
             = (Inr (PStr ''d8''), cached_client, empty_world)"
    by (simp add: get_device_id_def cached_client_def)
  have u: "rstrip (api_base_url cached_client) CHR ''/'' = ''https://api.myiquaapp.com/v1''"
    "session cached_client = Some (Session (Some ''Bearer tok''))"
    "calls empty_world = []"
    by (simp_all add: rstrip_def scenario_defs cached_client_def)
  show ?thesis
    using set_water_shutoff_valve_command
      [where state = 2 and e = devices_env and c = expired_client and w = empty_world
         and did = "PStr ''d8''" and ?c1.0 = cached_client and ?w1.0 = empty_world
         and ?c2.0 = cached_client and ?w2.0 = empty_world]
      set_water_shutoff_valve_command
      [where state = 2 and e = devices_env and c = cached_client and w = empty_world
         and did = "PStr ''d8''" and ?c1.0 = cached_client and ?w1.0 = empty_world
         and ?c2.0 = cached_client and ?w2.0 = empty_world]
      g cached_client_authenticated u
    by simp
qed

end
